theory Spec2Isabelle
  imports Complex_Main "HOL-Library.Sublist"
begin

section \<open>Python values, errors and strings\<close>

text \<open>
  The exceptions the modelled functions can raise. A function that can raise returns
  \<open>error + 'a\<close>, with \<open>Inl\<close> for the exception. \<open>ProviderError\<close> stands for any exception
  raised by an external collaborator (the embedding model, the vector index).
\<close>

datatype error = TypeError | ValueError | IndexError | KeyError | AttributeError | ProviderError

text \<open>
  Strings are lists of characters. \<open>isspace\<close> is Python's \<open>str.isspace\<close> on one character
  of the Latin-1 range: tab to carriage return, the four separators 28 to 31, space,
  NEL (133) and the no-break space (160).
\<close>

definition isspace :: "char \<Rightarrow> bool" where
  "isspace c =
     (let n = (of_char c :: nat)
      in (9 \<le> n \<and> n \<le> 13) \<or> (28 \<le> n \<and> n \<le> 32) \<or> n = 133 \<or> n = 160)"

definition strip :: "string \<Rightarrow> string" where
  "strip s = rev (dropWhile isspace (rev (dropWhile isspace s)))"

definition len :: "'a list \<Rightarrow> int" where
  "len xs = int (length xs)"

text \<open>Python's \<open>xs[a:b]\<close>: a negative bound counts from the end, and both are clipped.\<close>

definition py_bound :: "int \<Rightarrow> int \<Rightarrow> nat" where
  "py_bound n i = (if i < 0 then nat (max (i + n) 0) else nat (min i n))"

definition py_slice :: "'a list \<Rightarrow> int \<Rightarrow> int \<Rightarrow> 'a list" where
  "py_slice xs a b =
     (let lo = py_bound (len xs) a; hi = py_bound (len xs) b
      in take (hi - lo) (drop lo xs))"

text \<open>Python's \<open>xs[i]\<close>: a negative index counts from the end, out of range raises.\<close>

definition py_index :: "'a list \<Rightarrow> int \<Rightarrow> error + 'a" where
  "py_index xs i =
     (if 0 \<le> i \<and> i < len xs then Inr (xs ! nat i)
      else if i < 0 \<and> - len xs \<le> i then Inr (xs ! nat (len xs + i))
      else Inl IndexError)"

text \<open>
  Python 3 defines no order between an \<open>int\<close> and a \<open>list\<close>: \<open>int.__le__\<close> and the
  reflected \<open>list.__ge__\<close> both answer \<open>NotImplemented\<close>, and \<open>a <= xs\<close> raises
  \<open>TypeError\<close> whatever the operands hold.
\<close>

definition py_le_int_list :: "int \<Rightarrow> 'a list \<Rightarrow> error + bool" where
  "py_le_int_list a xs = Inl TypeError"


section \<open>Chunker: \<open>data_ingestion/pdf_processor.py\<close>\<close>

record PDFProcessor =
  chunk_size :: int
  chunk_overlap :: int
  min_chunk_size :: int

text \<open>
  \<open>for i in range(hi, lo - 1, -1)\<close> with a body that returns at the first \<open>i\<close> whose test
  holds: the scan visits \<open>hi, hi - 1, \<dots>, lo\<close> and stops at the first hit or the first
  exception of the test.
\<close>

function scan_down :: "(int \<Rightarrow> error + bool) \<Rightarrow> int \<Rightarrow> int \<Rightarrow> error + int option" where
  "scan_down p i lo =
     (if i < lo then Inr None
      else (case p i of
              Inl e \<Rightarrow> Inl e
            | Inr b \<Rightarrow> if b then Inr (Some i) else scan_down p (i - 1) lo))"
  by pat_completeness auto
termination
  by (relation "measure (\<lambda>(p, i, lo). nat (i - lo + 1))") auto

definition paragraph_break :: "string" where
  "paragraph_break = [CHR 0x0A, CHR 0x0A]"

definition sentence_endings :: "string" where
  "sentence_endings = ''.!?''"

definition is_paragraph_at :: "string \<Rightarrow> int \<Rightarrow> error + bool" where
  "is_paragraph_at text i = Inr (py_slice text i (i + 2) = paragraph_break)"

definition is_sentence_end_at :: "string \<Rightarrow> int \<Rightarrow> error + bool" where
  "is_sentence_end_at text i =
     (case py_index text i of
        Inl e \<Rightarrow> Inl e
      | Inr c \<Rightarrow>
          if c \<in> set sentence_endings \<and> i + 1 < len text
          then (case py_index text (i + 1) of Inl e \<Rightarrow> Inl e | Inr d \<Rightarrow> Inr (isspace d))
          else Inr False)"

definition is_space_at :: "string \<Rightarrow> int \<Rightarrow> error + bool" where
  "is_space_at text i =
     (case py_index text i of Inl e \<Rightarrow> Inl e | Inr c \<Rightarrow> Inr (isspace c))"

text \<open>\<open>PDFProcessor._find_break_point(text, start, end)\<close>.\<close>

definition find_break_point :: "string \<Rightarrow> int \<Rightarrow> int \<Rightarrow> error + int" where
  "find_break_point text start end =
     (case scan_down (is_paragraph_at text) (end - 1) start of
        Inl e \<Rightarrow> Inl e
      | Inr (Some i) \<Rightarrow> Inr (i + 2)
      | Inr None \<Rightarrow>
         (case scan_down (is_sentence_end_at text) (end - 1) start of
            Inl e \<Rightarrow> Inl e
          | Inr (Some i) \<Rightarrow> Inr (i + 1)
          | Inr None \<Rightarrow>
             (case scan_down (is_space_at text) (end - 1) start of
                Inl e \<Rightarrow> Inl e
              | Inr (Some i) \<Rightarrow> Inr (i + 1)
              | Inr None \<Rightarrow> Inr end)))"

text \<open>
  The window end of one iteration of the \<open>while\<close> loop of \<open>chunk_text\<close>: \<open>start + chunk_size\<close>,
  moved to the break point when the window is not the last one and the break point lies
  after \<open>start\<close>.
\<close>

definition window_end :: "PDFProcessor \<Rightarrow> string \<Rightarrow> int \<Rightarrow> error + int" where
  "window_end self text start =
     (let end = start + chunk_size self
      in if end < len text
         then (let search_start = max (start + chunk_size self - chunk_overlap self) start
               in case find_break_point text search_start end of
                    Inl e \<Rightarrow> Inl e
                  | Inr break_point \<Rightarrow> Inr (if break_point > start then break_point else end))
         else Inr end)"

text \<open>
  The \<open>while start < len(text)\<close> loop of \<open>chunk_text\<close>, one call per iteration, on the
  loop state \<open>(start, chunks)\<close>. The progress check of the source is
  \<open>if start <= chunks and len(chunks) > 0\<close>: its left operand compares the integer
  \<open>start\<close> with the list \<open>chunks\<close> and is evaluated first.
\<close>

function chunk_loop :: "PDFProcessor \<Rightarrow> string \<Rightarrow> int \<Rightarrow> string list \<Rightarrow> error + string list" where
  "chunk_loop self text start chunks =
     (if \<not> start < len text then Inr chunks
      else (case window_end self text start of
              Inl e \<Rightarrow> Inl e
            | Inr end \<Rightarrow>
               (let chunk = strip (py_slice text start end);
                    chunks' = (if len chunk \<ge> min_chunk_size self then chunks @ [chunk] else chunks)
                in if end \<ge> len text then Inr chunks'
                   else (case py_le_int_list (end - chunk_overlap self) chunks' of
                           Inl e \<Rightarrow> Inl e
                         | Inr b \<Rightarrow>
                            chunk_loop self text
                              (if b \<and> length chunks' > 0
                               then end - chunk_overlap self div 2
                               else end - chunk_overlap self)
                              chunks'))))"
  by pat_completeness auto
termination
  by (relation "{}") (auto simp: py_le_int_list_def)

text \<open>\<open>PDFProcessor.chunk_text(text, title)\<close>; the title is not used by the source.\<close>

definition chunk_text :: "PDFProcessor \<Rightarrow> string \<Rightarrow> error + string list" where
  "chunk_text self text0 =
     (if strip text0 = [] then Inr []
      else (let text = strip text0
            in if len text \<le> chunk_size self
               then (if len text \<ge> min_chunk_size self then Inr [text] else Inr [])
               else chunk_loop self text 0 []))"


section \<open>Embeddings: \<open>src/rag/embeddings.py\<close>\<close>

text \<open>
  Scores, distances and vector components are Python floats; they are modelled as real
  numbers, so rounding, infinities and NaN are outside the model.
\<close>

type_synonym vec = "real list"

text \<open>
  The sentence-transformers model is an external collaborator: \<open>model_encode_text\<close> is
  \<open>self.model.encode(text).tolist()\<close> on one text and \<open>model_encode\<close> is
  \<open>self.model.encode(batch)\<close> on a list of texts, converted with \<open>tolist\<close>; either may
  raise.
\<close>

record EmbeddingsService =
  embedding_dimension :: int
  model_encode_text :: "string \<Rightarrow> error + vec"
  model_encode :: "string list \<Rightarrow> error + vec list"

definition zero_vector :: "EmbeddingsService \<Rightarrow> vec" where
  "zero_vector self = replicate (nat (embedding_dimension self)) 0"



text \<open>
  \<open>for i in range(0, len(non_empty_texts), batch_size)\<close> for a positive step: one model
  call per window \<open>non_empty_texts[i : i + batch_size]\<close>, the embeddings appended in order;
  the first exception ends the loop.
\<close>

function encode_batches ::
  "(string list \<Rightarrow> error + vec list) \<Rightarrow> string list \<Rightarrow> int \<Rightarrow> int \<Rightarrow> error + vec list" where
  "encode_batches enc xs batch_size i =
     (if batch_size \<le> 0 \<or> len xs \<le> i then Inr []
      else (case enc (py_slice xs i (i + batch_size)) of
              Inl e \<Rightarrow> Inl e
            | Inr batch_embeddings \<Rightarrow>
               (case encode_batches enc xs batch_size (i + batch_size) of
                  Inl e \<Rightarrow> Inl e
                | Inr rest \<Rightarrow> Inr (batch_embeddings @ rest))))"
  by pat_completeness auto
termination
  by (relation "measure (\<lambda>(enc, xs, batch_size, i). nat (len xs - i))") auto

text \<open>
  The whole loop: \<open>range\<close> raises \<open>ValueError\<close> for a zero step and is empty for a negative
  one (the stop \<open>len(non_empty_texts)\<close> is positive where the loop is reached).
\<close>

definition encode_all ::
  "(string list \<Rightarrow> error + vec list) \<Rightarrow> string list \<Rightarrow> int \<Rightarrow> error + vec list" where
  "encode_all enc xs batch_size =
     (if batch_size = 0 then Inl ValueError else encode_batches enc xs batch_size 0)"

text \<open>\<open>for embedding, orig_index in zip(embeddings, text_indices): result[orig_index] = embedding\<close>.\<close>

definition fill_result :: "vec list \<Rightarrow> nat list \<Rightarrow> vec list \<Rightarrow> vec list" where
  "fill_result embeddings text_indices result =
     fold (\<lambda>(embedding, orig_index) r. r[orig_index := embedding])
          (zip embeddings text_indices) result"

definition text_indices_of :: "string list \<Rightarrow> nat list" where
  "text_indices_of texts = map fst (filter (\<lambda>(i, text). strip text \<noteq> []) (enumerate 0 texts))"

definition encode_batch :: "EmbeddingsService \<Rightarrow> string list \<Rightarrow> int \<Rightarrow> vec list" where
  "encode_batch self texts batch_size =
     (if texts = [] then []
      else (let non_empty_texts = filter (\<lambda>text. strip text \<noteq> []) texts;
                text_indices = text_indices_of texts
            in if non_empty_texts = [] then replicate (length texts) (zero_vector self)
               else (case encode_all (model_encode self) non_empty_texts batch_size of
                       Inl e \<Rightarrow> replicate (length texts) (zero_vector self)
                     | Inr embeddings \<Rightarrow>
                         fill_result embeddings text_indices
                           (replicate (length texts) (zero_vector self)))))"


section \<open>Data model: \<open>src/data/models.py\<close>\<close>

text \<open>
  A chunk id is the canonical text of a UUID, as \<open>str(chunk.id)\<close> writes it: \<open>UUID\<close> and
  \<open>str\<close> are inverse on it. Timestamps of a chunk are the ISO strings the index stores.
\<close>

type_synonym uuid = string

record KnowledgeChunk =
  chunk_id :: uuid
  document_id :: string
  title :: string
  content :: string
  embedding :: vec
  metadata :: "(string \<times> string) list"
  created_at :: string
  updated_at :: string
  chunk_index :: int
  relevance_score :: real



section \<open>Vector store: \<open>src/rag/vector_store.py\<close>\<close>



type_synonym metadata_filter = "(string \<times> string) list option"


definition bind_err :: "error + 'a \<Rightarrow> ('a \<Rightarrow> error + 'b) \<Rightarrow> error + 'b" where
  "bind_err m f = (case m of Inl e \<Rightarrow> Inl e | Inr x \<Rightarrow> f x)"



text \<open>\<open>metadata.get("key", default)\<close>.\<close>

definition get_default :: "'a option \<Rightarrow> 'a \<Rightarrow> 'a" where
  "get_default v d = (case v of None \<Rightarrow> d | Some x \<Rightarrow> x)"





section \<open>Retriever: \<open>src/rag/retriever.py\<close>\<close>

text \<open>
  The retriever holds its two collaborators as the calls it makes on them:
  \<open>embeddings_service.encode_query\<close> and \<open>vector_store.search_similar\<close>. Either may be any
  implementation and may raise.
\<close>

record RAGRetriever =
  vs_search_similar :: "vec \<Rightarrow> int \<Rightarrow> metadata_filter \<Rightarrow> error + (KnowledgeChunk \<times> real) list"
  es_encode_query :: "string \<Rightarrow> error + vec"
  default_top_k :: int
  similarity_threshold :: real

text \<open>
  \<open>xs.sort(key=f, reverse=True)\<close>: Python's sort is stable, also with \<open>reverse=True\<close>,
  so elements with equal keys keep their order.
\<close>

definition sort_reverse :: "('a \<Rightarrow> real) \<Rightarrow> 'a list \<Rightarrow> 'a list" where
  "sort_reverse f xs = sort_key (\<lambda>x. - f x) xs"

text \<open>
  The loop \<open>for chunk, similarity_score in results\<close> of \<open>search\<close>, which keeps the chunks
  at or above the threshold and stores the score in each.
\<close>

definition filter_by_threshold :: "real \<Rightarrow> (KnowledgeChunk \<times> real) list \<Rightarrow> KnowledgeChunk list" where
  "filter_by_threshold threshold results =
     map (\<lambda>(chunk, similarity_score). chunk\<lparr>relevance_score := similarity_score\<rparr>)
         (filter (\<lambda>(chunk, similarity_score). similarity_score \<ge> threshold) results)"

text \<open>The \<open>try\<close> block of \<open>RAGRetriever.search\<close>.\<close>

definition search_try ::
  "('z RAGRetriever_scheme) \<Rightarrow> string \<Rightarrow> int \<Rightarrow> metadata_filter \<Rightarrow> real \<Rightarrow> error + KnowledgeChunk list" where
  "search_try self query top_k mfilter threshold =
     bind_err (es_encode_query self query) (\<lambda>query_embedding.
     bind_err (vs_search_similar self query_embedding (top_k * 2) mfilter) (\<lambda>results.
     let filtered_chunks = sort_reverse relevance_score (filter_by_threshold threshold results)
     in Inr (py_slice filtered_chunks 0 top_k)))"

text \<open>
  \<open>RAGRetriever.search\<close>. The result is a sum so that a raise would show as \<open>Inl\<close>; the
  \<open>except Exception\<close> clause turns every exception of the \<open>try\<close> block into \<open>[]\<close>.
\<close>

definition effective_top_k :: "('z RAGRetriever_scheme) \<Rightarrow> int option \<Rightarrow> int" where
  "effective_top_k self top_k = (case top_k of None \<Rightarrow> default_top_k self | Some k \<Rightarrow> k)"

definition effective_threshold :: "('z RAGRetriever_scheme) \<Rightarrow> real option \<Rightarrow> real" where
  "effective_threshold self t = (case t of None \<Rightarrow> similarity_threshold self | Some x \<Rightarrow> x)"

definition search ::
  "('z RAGRetriever_scheme) \<Rightarrow> string \<Rightarrow> int option \<Rightarrow> metadata_filter \<Rightarrow> real option
     \<Rightarrow> error + KnowledgeChunk list" where
  "search self query top_k mfilter threshold =
     (if strip query = [] then Inr []
      else (case search_try self query (effective_top_k self top_k) mfilter
                   (effective_threshold self threshold) of
              Inl e \<Rightarrow> Inr []
            | Inr final_chunks \<Rightarrow> Inr final_chunks))"





subsection \<open>Hybrid retriever\<close>



text \<open>
  \<open>str.lower\<close> on the Latin-1 range (the letters A to Z and the accented capitals 192 to
  222 except the multiplication sign 215), and \<open>str.split()\<close>, which cuts at runs of
  whitespace and yields no empty token.
\<close>

definition lower_char :: "char \<Rightarrow> char" where
  "lower_char c =
     (let n = (of_char c :: nat)
      in if (65 \<le> n \<and> n \<le> 90) \<or> (192 \<le> n \<and> n \<le> 222 \<and> n \<noteq> 215)
         then char_of (n + 32) else c)"

definition lower :: "string \<Rightarrow> string" where
  "lower s = map lower_char s"

fun split_from :: "string \<Rightarrow> string \<Rightarrow> string list" where
  "split_from cur [] = (if cur = [] then [] else [cur])"
| "split_from cur (c # cs) =
     (if isspace c then (if cur = [] then split_from [] cs else cur # split_from [] cs)
      else split_from (cur @ [c]) cs)"

definition split :: "string \<Rightarrow> string list" where
  "split s = split_from [] s"

text \<open>The body of the loop of \<open>_keyword_search\<close>, for one chunk content.\<close>

definition keyword_score :: "string set \<Rightarrow> string \<Rightarrow> real" where
  "keyword_score query_terms text =
     (let content_terms = set (split (lower text));
          overlap = card (query_terms \<inter> content_terms);
          max_terms = max (card query_terms) (card content_terms)
      in if max_terms > 0 then real overlap / real max_terms else 0)"






section \<open>Semantic cache: \<open>src/utils/cache.py\<close>\<close>

text \<open>
  A \<open>datetime\<close> is a count of microseconds; \<open>timedelta(seconds=n)\<close> is \<open>n\<close> million of them.
\<close>

type_synonym datetime = int

definition timedelta_seconds :: "int \<Rightarrow> int" where
  "timedelta_seconds n = n * 1000000"

datatype pyval = PStr string | PInt int | PVec vec | PTime datetime | PNone

subsection \<open>The \<open>CacheEntry\<close> dataclass of \<open>src/data/models.py\<close>\<close>

text \<open>
  \<open>CacheEntry\<close> declares four fields: \<open>key\<close> and \<open>value\<close> without default, \<open>created_at\<close>
  with the clock as default and \<open>expires_at\<close> with default \<open>None\<close>. The generated
  \<open>__init__\<close> raises \<open>TypeError\<close> for a keyword that is not a field and for a missing
  \<open>key\<close> or \<open>value\<close>. Reading an attribute that is not a field raises \<open>AttributeError\<close>.
\<close>

record CacheEntry =
  ce_key :: pyval
  ce_value :: pyval
  ce_created_at :: pyval
  ce_expires_at :: pyval

definition CacheEntry_fields :: "string list" where
  "CacheEntry_fields = [''key'', ''value'', ''created_at'', ''expires_at'']"

definition CacheEntry_init :: "datetime \<Rightarrow> (string \<times> pyval) list \<Rightarrow> error + CacheEntry" where
  "CacheEntry_init now kwargs =
     (if \<not> list_all (\<lambda>(k, v). k \<in> set CacheEntry_fields) kwargs then Inl TypeError
      else (case (map_of kwargs ''key'', map_of kwargs ''value'') of
              (Some k, Some v) \<Rightarrow>
                Inr \<lparr>ce_key = k, ce_value = v,
                     ce_created_at = get_default (map_of kwargs ''created_at'') (PTime now),
                     ce_expires_at = get_default (map_of kwargs ''expires_at'') PNone\<rparr>
            | _ \<Rightarrow> Inl TypeError))"

definition CacheEntry_getattr :: "CacheEntry \<Rightarrow> string \<Rightarrow> error + pyval" where
  "CacheEntry_getattr entry name =
     (if name = ''key'' then Inr (ce_key entry)
      else if name = ''value'' then Inr (ce_value entry)
      else if name = ''created_at'' then Inr (ce_created_at entry)
      else if name = ''expires_at'' then Inr (ce_expires_at entry)
      else Inl AttributeError)"


subsection \<open>The cache table and its collaborators\<close>

text \<open>
  One row of the table \<open>cache_entries\<close>; the table is the list of its rows. The stored
  embedding is the JSON text of the list of floats, which \<open>_deserialize_embedding\<close> reads
  back unchanged, so the row holds the vector. Statements on the table are taken to
  succeed: a failure of the database file is outside the model.
\<close>

record cache_row =
  row_id :: string
  query_hash :: string
  query_text :: string
  query_embedding :: vec
  response :: string
  model_used :: string
  context_hash :: string
  row_created_at :: datetime
  last_accessed :: datetime
  access_count :: int
  ttl_seconds :: int
  expires_at :: datetime

type_synonym context_dict = "(string \<times> pyval) list"

text \<open>
  The configuration of the cache and the library calls it makes: the embeddings service,
  \<open>json.dumps(context, sort_keys=True)\<close> (which raises \<open>TypeError\<close> on a value it cannot
  serialise), the two digests and Python's string \<open>hash\<close>.
\<close>

record SemanticCache =
  cache_similarity_threshold :: real
  default_ttl_seconds :: int
  max_cache_size :: int
  cache_encode_text :: "string \<Rightarrow> error + vec"
  json_dumps :: "context_dict \<Rightarrow> error + string"
  md5_hexdigest :: "string \<Rightarrow> string"
  sha256_hexdigest :: "string \<Rightarrow> string"
  py_hash :: "string \<Rightarrow> int"

definition calculate_similarity :: "vec \<Rightarrow> vec \<Rightarrow> real" where
  "calculate_similarity embedding1 embedding2 =
     (let dot_product = sum_list (map (\<lambda>(a, b). a * b) (zip embedding1 embedding2));
          magnitude1 = sqrt (sum_list (map (\<lambda>a. a * a) embedding1));
          magnitude2 = sqrt (sum_list (map (\<lambda>b. b * b) embedding2))
      in if magnitude1 = 0 \<or> magnitude2 = 0 then 0
         else max 0 (min 1 (dot_product / (magnitude1 * magnitude2))))"

definition generate_query_hash :: "SemanticCache \<Rightarrow> string \<Rightarrow> string \<Rightarrow> string" where
  "generate_query_hash self query ctx_hash =
     sha256_hexdigest self (strip (lower query) @ '':'' @ ctx_hash)"

definition generate_context_hash :: "SemanticCache \<Rightarrow> context_dict \<Rightarrow> error + string" where
  "generate_context_hash self ctx =
     bind_err (json_dumps self ctx) (\<lambda>context_str. Inr (md5_hexdigest self context_str))"

text \<open>\<open>context or {}\<close>.\<close>

definition context_or_empty :: "context_dict option \<Rightarrow> context_dict" where
  "context_or_empty ctx = (case ctx of None \<Rightarrow> [] | Some c \<Rightarrow> c)"

text \<open>\<open>DELETE FROM cache_entries WHERE expires_at < now\<close>.\<close>

definition cleanup_expired :: "cache_row list \<Rightarrow> datetime \<Rightarrow> cache_row list" where
  "cleanup_expired db now = filter (\<lambda>r. \<not> expires_at r < now) db"

text \<open>
  \<open>_cleanup_lru\<close>: above the cap, delete the rows whose id is among the first
  \<open>count - max_cache_size + 100\<close> in ascending order of \<open>last_accessed\<close>.
\<close>

definition cleanup_lru :: "SemanticCache \<Rightarrow> cache_row list \<Rightarrow> cache_row list" where
  "cleanup_lru self db =
     (let current_count = len db
      in if current_count \<le> max_cache_size self then db
         else (let entries_to_remove = current_count - max_cache_size self + 100;
                   victims = map row_id (take (nat entries_to_remove) (sort_key last_accessed db))
               in filter (\<lambda>r. row_id r \<notin> set victims) db))"

text \<open>
  \<open>INSERT OR REPLACE\<close>: the rows in conflict on the primary key \<open>id\<close> or on the unique
  \<open>query_hash\<close> are deleted, then the row is added.
\<close>

definition insert_or_replace :: "cache_row \<Rightarrow> cache_row list \<Rightarrow> cache_row list" where
  "insert_or_replace row db =
     filter (\<lambda>r. row_id r \<noteq> row_id row \<and> query_hash r \<noteq> query_hash row) db @ [row]"

text \<open>\<open>UPDATE cache_entries SET last_accessed = now, access_count = access_count + 1 WHERE id = ?\<close>.\<close>

definition touch :: "cache_row list \<Rightarrow> string \<Rightarrow> datetime \<Rightarrow> cache_row list" where
  "touch db entry_id now =
     map (\<lambda>r. if row_id r = entry_id
               then r\<lparr>last_accessed := now, access_count := access_count r + 1\<rparr> else r) db"

subsection \<open>\<open>SemanticCache.get\<close>\<close>

text \<open>The rows of the \<open>SELECT\<close>: same context hash, same model, \<open>expires_at > now\<close>.\<close>

definition candidates_of :: "cache_row list \<Rightarrow> string \<Rightarrow> string \<Rightarrow> datetime \<Rightarrow> cache_row list" where
  "candidates_of db ctx_hash model now =
     filter (\<lambda>r. context_hash r = ctx_hash \<and> model_used r = model \<and> expires_at r > now) db"

text \<open>One iteration of the loop over the candidates, on \<open>(best_match, best_similarity)\<close>.\<close>

definition best_step ::
  "SemanticCache \<Rightarrow> vec \<Rightarrow> cache_row \<Rightarrow> (string \<times> string \<times> int) option \<times> real
     \<Rightarrow> (string \<times> string \<times> int) option \<times> real" where
  "best_step self query_emb entry best =
     (let similarity = calculate_similarity query_emb (query_embedding entry)
      in if similarity > snd best \<and> similarity \<ge> cache_similarity_threshold self
         then (Some (row_id entry, response entry, access_count entry), similarity)
         else best)"

definition find_best ::
  "SemanticCache \<Rightarrow> vec \<Rightarrow> cache_row list \<Rightarrow> (string \<times> string \<times> int) option \<times> real" where
  "find_best self query_emb candidates = fold (best_step self query_emb) candidates (None, 0)"

text \<open>
  The \<open>try\<close> block of \<open>get\<close>, with the clock readings of the \<open>SELECT\<close> and of the
  \<open>UPDATE\<close>. It yields the response, if any, and the table.
\<close>

definition get_try ::
  "SemanticCache \<Rightarrow> cache_row list \<Rightarrow> datetime \<Rightarrow> datetime \<Rightarrow> string \<Rightarrow> string \<Rightarrow> string
     \<Rightarrow> error + (string option \<times> cache_row list)" where
  "get_try self db t_select t_update query ctx_hash model =
     bind_err (cache_encode_text self query) (\<lambda>query_emb.
       let candidates = candidates_of db ctx_hash model t_select
       in (case fst (find_best self query_emb candidates) of
             Some (entry_id, resp, cnt) \<Rightarrow> Inr (Some resp, touch db entry_id t_update)
           | None \<Rightarrow> Inr (None, db)))"

text \<open>
  \<open>SemanticCache.get\<close>, with the three clock readings it makes (sweep, \<open>SELECT\<close>,
  \<open>UPDATE\<close>). The sweep and the context hash are outside the \<open>try\<close> block.
\<close>

definition get ::
  "SemanticCache \<Rightarrow> cache_row list \<Rightarrow> datetime \<Rightarrow> datetime \<Rightarrow> datetime
     \<Rightarrow> string \<Rightarrow> context_dict option \<Rightarrow> string \<Rightarrow> error + (string option \<times> cache_row list)" where
  "get self db t_sweep t_select t_update query ctx model =
     (if strip query = [] then Inr (None, db)
      else (let db1 = (if py_hash self query mod 100 = 0 then cleanup_expired db t_sweep else db)
            in bind_err (generate_context_hash self (context_or_empty ctx)) (\<lambda>ctx_hash.
                 (case get_try self db1 t_select t_update query ctx_hash model of
                    Inl e \<Rightarrow> Inr (None, db1)
                  | Inr result \<Rightarrow> Inr result))))"

subsection \<open>\<open>SemanticCache.put\<close>\<close>

text \<open>\<open>ttl_seconds or self.default_ttl_seconds\<close>: \<open>None\<close> and \<open>0\<close> give the default.\<close>

definition ttl_or_default :: "SemanticCache \<Rightarrow> int option \<Rightarrow> int" where
  "ttl_or_default self ttl =
     (case ttl of None \<Rightarrow> default_ttl_seconds self
      | Some t \<Rightarrow> if t = 0 then default_ttl_seconds self else t)"

text \<open>\<open>str(v)\<close> for the values bound in the \<open>INSERT\<close>.\<close>

definition str_of :: "pyval \<Rightarrow> string" where
  "str_of v = (case v of PStr s \<Rightarrow> s | _ \<Rightarrow> [])"

text \<open>
  The \<open>try\<close> block of \<open>put\<close>; \<open>new_id\<close> is the value of \<open>uuid4()\<close>. The entry is built by
  \<open>CacheEntry(id=..., query_hash=..., query_embedding=..., response=..., model_used=...,
  context_hash=..., created_at=..., last_accessed=..., access_count=..., ttl_seconds=...)\<close>,
  and the \<open>INSERT\<close> reads \<open>entry.id\<close> and \<open>entry.query_hash\<close>.
\<close>

definition put_try ::
  "SemanticCache \<Rightarrow> cache_row list \<Rightarrow> datetime \<Rightarrow> string \<Rightarrow> string \<Rightarrow> string \<Rightarrow> string
     \<Rightarrow> string \<Rightarrow> string \<Rightarrow> int \<Rightarrow> error + cache_row list" where
  "put_try self db now new_id query resp model ctx_hash q_hash ttl =
     bind_err (cache_encode_text self query) (\<lambda>query_emb.
       let exp = now + timedelta_seconds ttl in
       bind_err (CacheEntry_init now
                   [(''id'', PStr new_id), (''query_hash'', PStr q_hash),
                    (''query_embedding'', PVec query_emb), (''response'', PStr resp),
                    (''model_used'', PStr model), (''context_hash'', PStr ctx_hash),
                    (''created_at'', PTime now), (''last_accessed'', PTime now),
                    (''access_count'', PInt 1), (''ttl_seconds'', PInt ttl)]) (\<lambda>entry.
       bind_err (CacheEntry_getattr entry ''id'') (\<lambda>entry_id.
       bind_err (CacheEntry_getattr entry ''query_hash'') (\<lambda>entry_query_hash.
         let row = \<lparr>row_id = str_of entry_id, query_hash = str_of entry_query_hash,
                    query_text = query, query_embedding = query_emb, response = resp,
                    model_used = model, context_hash = ctx_hash, row_created_at = now,
                    last_accessed = now, access_count = 1, ttl_seconds = ttl,
                    expires_at = exp\<rparr>
         in Inr (cleanup_lru self (insert_or_replace row db))))))"

text \<open>\<open>SemanticCache.put\<close>: the flag it returns and the table. The context hash is outside
  the \<open>try\<close> block.\<close>

definition put ::
  "SemanticCache \<Rightarrow> cache_row list \<Rightarrow> datetime \<Rightarrow> string \<Rightarrow> string \<Rightarrow> string
     \<Rightarrow> context_dict option \<Rightarrow> string \<Rightarrow> int option \<Rightarrow> error + (bool \<times> cache_row list)" where
  "put self db now new_id query resp ctx model ttl_secs =
     (if strip query = [] \<or> strip resp = [] then Inr (False, db)
      else (let ttl = ttl_or_default self ttl_secs
            in bind_err (generate_context_hash self (context_or_empty ctx)) (\<lambda>ctx_hash.
                 let q_hash = generate_query_hash self query ctx_hash
                 in (case put_try self db now new_id query resp model ctx_hash q_hash ttl of
                       Inl e \<Rightarrow> Inr (False, db)
                     | Inr db' \<Rightarrow> Inr (True, db')))))"


section \<open>Concrete inputs\<close>



text \<open>An embeddings service whose model maps every text to the vector \<open>[1]\<close>.\<close>

definition unit_service :: EmbeddingsService where
  "unit_service =
     \<lparr>embedding_dimension = 1,
      model_encode_text = (\<lambda>text. Inr [1]),
      model_encode = (\<lambda>batch. Inr (map (\<lambda>text. [1]) batch))\<rparr>"

text \<open>
  A vector store that answers every query with the first \<open>n_results\<close> of four ranked
  chunks, two of them with the same score, and three retrievers: one on that store, one
  whose embeddings service raises, one whose vector store raises.
\<close>

definition demo_chunk :: "string \<Rightarrow> string \<Rightarrow> real \<Rightarrow> KnowledgeChunk" where
  "demo_chunk cid text r =
     \<lparr>chunk_id = cid, document_id = ''d1'', title = ''guide'', content = text,
      embedding = [1], metadata = [], created_at = [], updated_at = [], chunk_index = 0,
      relevance_score = r\<rparr>"

definition ranked_results :: "(KnowledgeChunk \<times> real) list" where
  "ranked_results =
     [(demo_chunk ''a'' ''Solar panels'' 0, 4 / 5),
      (demo_chunk ''b'' ''battery storage'' 0, 9 / 10),
      (demo_chunk ''c'' ''solar battery'' 0, 4 / 5),
      (demo_chunk ''d'' ''wind'' 0, 3 / 10)]"

definition ranked_retriever :: RAGRetriever where
  "ranked_retriever =
     \<lparr>vs_search_similar = (\<lambda>qe n f. Inr (py_slice ranked_results 0 n)),
      es_encode_query = (\<lambda>q. Inr [1]),
      default_top_k = 2, similarity_threshold = 7 / 10\<rparr>"

definition failing_encoder_retriever :: RAGRetriever where
  "failing_encoder_retriever =
     \<lparr>vs_search_similar = (\<lambda>qe n f. Inr (py_slice ranked_results 0 n)),
      es_encode_query = (\<lambda>q. Inl ProviderError),
      default_top_k = 2, similarity_threshold = 7 / 10\<rparr>"

definition failing_store_retriever :: RAGRetriever where
  "failing_store_retriever =
     \<lparr>vs_search_similar = (\<lambda>qe n f. Inl ProviderError),
      es_encode_query = (\<lambda>q. Inr [1]),
      default_top_k = 2, similarity_threshold = 7 / 10\<rparr>"


text \<open>
  An embeddings service whose model raises on every batch that holds the text \<open>b\<close> and
  maps every other text to \<open>[1]\<close>.
\<close>

definition flaky_service :: EmbeddingsService where
  "flaky_service =
     \<lparr>embedding_dimension = 1,
      model_encode_text = (\<lambda>text. if text = ''b'' then Inl ProviderError else Inr [1]),
      model_encode = (\<lambda>batch. if ''b'' \<in> set batch then Inl ProviderError
                               else Inr (map (\<lambda>text. [1]) batch))\<rparr>"

text \<open>
  A cache with the default settings of the source whose embeddings service maps every
  query to \<open>[1]\<close>, and one stored row that expires at time 100.
\<close>

definition unit_cache :: SemanticCache where
  "unit_cache =
     \<lparr>cache_similarity_threshold = 19 / 20, default_ttl_seconds = 3600, max_cache_size = 10000,
      cache_encode_text = (\<lambda>q. Inr [1]),
      json_dumps = (\<lambda>c. Inr ''{}''),
      md5_hexdigest = (\<lambda>s. s), sha256_hexdigest = (\<lambda>s. s), py_hash = (\<lambda>s. 1)\<rparr>"

definition stored_row :: cache_row where
  "stored_row =
     \<lparr>row_id = ''r1'', query_hash = ''h1'', query_text = ''capital of France?'',
      query_embedding = [1], response = ''Paris'', model_used = ''m'', context_hash = ''{}'',
      row_created_at = 0, last_accessed = 0, access_count = 1, ttl_seconds = 100,
      expires_at = 100\<rparr>"


section \<open>Properties of the chunker\<close>

declare scan_down.simps [simp del]
declare chunk_loop.simps [simp del]

lemma strip_last_not_space: "strip s \<noteq> [] \<Longrightarrow> \<not> isspace (last (strip s))"
proof -
  assume ne: "strip s \<noteq> []"
  let ?r = "dropWhile isspace (rev (dropWhile isspace s))"
  from ne have r: "?r \<noteq> []" by (simp add: strip_def)
  then have "\<not> isspace (hd ?r)" by (rule hd_dropWhile)
  moreover have "last (strip s) = hd ?r" using r by (simp add: strip_def last_rev)
  ultimately show ?thesis by simp
qed

lemma scan_down_Some:
  "scan_down p i lo = Inr (Some j) \<Longrightarrow> lo \<le> j \<and> j \<le> i \<and> p j = Inr True"
proof (induction p i lo rule: scan_down.induct)
  case (1 p i lo)
  show ?case
  proof (cases "i < lo")
    case True
    with "1.prems" show ?thesis by (simp add: scan_down.simps)
  next
    case False
    show ?thesis
    proof (cases "p i")
      case (Inl e)
      with False "1.prems" show ?thesis by (simp add: scan_down.simps)
    next
      case (Inr b)
      show ?thesis
      proof (cases b)
        case True
        with False Inr "1.prems" show ?thesis by (simp add: scan_down.simps)
      next
        case nb: False
        with False Inr "1.prems" have "scan_down p (i - 1) lo = Inr (Some j)"
          by (simp add: scan_down.simps)
        with "1.IH"[OF False Inr] nb have "lo \<le> j \<and> j \<le> i - 1 \<and> p j = Inr True" by simp
        then show ?thesis by simp
      qed
    qed
  qed
qed

lemma scan_down_no_error:
  "(\<And>j. lo \<le> j \<Longrightarrow> j \<le> i \<Longrightarrow> \<exists>b. p j = Inr b) \<Longrightarrow> \<exists>r. scan_down p i lo = Inr r"
proof (induction p i lo rule: scan_down.induct)
  case (1 p i lo)
  show ?case
  proof (cases "i < lo")
    case True
    then show ?thesis by (simp add: scan_down.simps)
  next
    case False
    then obtain b where b: "p i = Inr b" using "1.prems"[of i] by auto
    show ?thesis
    proof (cases b)
      case True
      with False b show ?thesis by (simp add: scan_down.simps)
    next
      case nb: False
      have "\<exists>r. scan_down p (i - 1) lo = Inr r"
        using "1.IH"[OF False b] nb "1.prems" by simp
      with False b nb show ?thesis by (simp add: scan_down.simps)
    qed
  qed
qed


lemma py_index_in_range:
  "0 \<le> i \<Longrightarrow> i < len xs \<Longrightarrow> py_index xs i = Inr (xs ! nat i)"
  by (simp add: py_index_def)

lemma paragraph_break_not_at_end:
  assumes last: "\<not> isspace (last text)" and i0: "0 \<le> i" and il: "i + 2 \<le> len text"
    and par: "py_slice text i (i + 2) = paragraph_break"
  shows "i + 2 < len text"
proof (rule ccontr)
  assume "\<not> i + 2 < len text"
  with il have eq: "i + 2 = len text" by simp
  then have n: "length text = nat i + 2" using i0 by (simp add: len_def)
  have "py_slice text i (i + 2) = drop (nat i) text"
    using i0 eq by (simp add: py_slice_def py_bound_def len_def n)
  with par have d: "drop (nat i) text = paragraph_break" by simp
  have "text \<noteq> []" using n by auto
  then have "last text = last (drop (nat i) text)" using n by (simp add: last_drop)
  with d have "last text = CHR 0x0A" by (simp add: paragraph_break_def)
  then have "isspace (last text)" by (simp add: isspace_def)
  with last show False by simp
qed

lemma find_break_point_bound:
  assumes last: "\<not> isspace (last text)" and s0: "0 \<le> start" and e: "end < len text"
  shows "\<exists>bp. find_break_point text start end = Inr bp \<and> bp < len text"
proof -
  have idx: "\<And>j. start \<le> j \<Longrightarrow> j \<le> end - 1 \<Longrightarrow> py_index text j = Inr (text ! nat j)"
    using s0 e by (simp add: py_index_in_range)
  obtain r1 where r1: "scan_down (is_paragraph_at text) (end - 1) start = Inr r1"
    using scan_down_no_error[of start "end - 1" "is_paragraph_at text"]
    by (auto simp: is_paragraph_at_def)
  have "\<exists>r. scan_down (is_sentence_end_at text) (end - 1) start = Inr r"
  proof (rule scan_down_no_error)
    fix j assume j: "start \<le> j" "j \<le> end - 1"
    show "\<exists>b. is_sentence_end_at text j = Inr b"
    proof (cases "j + 1 < len text")
      case True
      then have "py_index text (j + 1) = Inr (text ! nat (j + 1))"
        using j s0 by (simp add: py_index_in_range)
      then show ?thesis using idx[OF j] by (auto simp: is_sentence_end_at_def)
    next
      case False
      then show ?thesis using idx[OF j] by (auto simp: is_sentence_end_at_def)
    qed
  qed
  then obtain r2 where r2: "scan_down (is_sentence_end_at text) (end - 1) start = Inr r2" ..
  have "\<exists>r. scan_down (is_space_at text) (end - 1) start = Inr r"
    by (rule scan_down_no_error) (simp add: is_space_at_def idx)
  then obtain r3 where r3: "scan_down (is_space_at text) (end - 1) start = Inr r3" ..
  show ?thesis
  proof (cases r1)
    case (Some i)
    from scan_down_Some[OF r1[unfolded Some]]
    have i: "start \<le> i" "i \<le> end - 1" and p: "is_paragraph_at text i = Inr True" by auto
    from p have "py_slice text i (i + 2) = paragraph_break" by (simp add: is_paragraph_at_def)
    then have "i + 2 < len text"
      using paragraph_break_not_at_end[OF last, of i] i s0 e by simp
    then show ?thesis using r1 Some by (simp add: find_break_point_def)
  next
    case n1: None
    show ?thesis
    proof (cases r2)
      case (Some i)
      from scan_down_Some[OF r2[unfolded Some]] have "i \<le> end - 1" by simp
      then show ?thesis using r1 n1 r2 Some e by (simp add: find_break_point_def)
    next
      case n2: None
      show ?thesis
      proof (cases r3)
        case (Some i)
        from scan_down_Some[OF r3[unfolded Some]] have "i \<le> end - 1" by simp
        then show ?thesis using r1 n1 r2 n2 r3 Some e by (simp add: find_break_point_def)
      next
        case None
        then show ?thesis using r1 n1 r2 n2 r3 e by (simp add: find_break_point_def)
      qed
    qed
  qed
qed

lemma window_end_first:
  assumes last: "\<not> isspace (last text)" and big: "chunk_size self < len text"
  shows "\<exists>e. window_end self text 0 = Inr e \<and> e < len text"
proof -
  let ?ss = "max (0 + chunk_size self - chunk_overlap self) 0"
  have "0 \<le> ?ss" by simp
  from find_break_point_bound[OF last this, of "chunk_size self"] big
  obtain bp where "find_break_point text ?ss (chunk_size self) = Inr bp" "bp < len text"
    by auto
  then show ?thesis using big by (simp add: window_end_def Let_def)
qed

lemma chunk_loop_first:
  assumes last: "\<not> isspace (last text)" and big: "chunk_size self < len text"
    and ne: "0 < len text"
  shows "chunk_loop self text 0 [] = Inl TypeError"
proof -
  from window_end_first[OF last big] obtain e where
    e: "window_end self text 0 = Inr e" "e < len text" by auto
  then show ?thesis using ne
    by (subst chunk_loop.simps) (simp add: Let_def py_le_int_list_def)
qed

text \<open>
  C2 (chunker forward progress and termination). The claim: for every text whose stripped
  length exceeds \<open>chunk_size\<close>, with \<open>chunk_size > overlap \<ge> 0\<close> and
  \<open>min_chunk_size \<le> chunk_size\<close>, \<open>chunk_text\<close> returns a list of chunks and raises no
  exception. The code does the opposite on every such text: the first window ends before
  the end of the text (a stripped text cannot end in the paragraph break that would move
  the window end to the last position), so the first iteration reaches the progress check
  \<open>start <= chunks\<close>, which compares an integer with a list and raises \<open>TypeError\<close>.
\<close>

theorem chunk_text_raises:
  assumes "chunk_overlap self < chunk_size self" and "0 \<le> chunk_overlap self"
    and "min_chunk_size self \<le> chunk_size self"
    and "chunk_size self < len (strip text)"
  shows "chunk_text self text = Inl TypeError"
proof -
  from assms have pos: "0 < len (strip text)" by simp
  then have ne: "strip text \<noteq> []" by (auto simp: len_def)
  then have "\<not> isspace (last (strip text))" by (rule strip_last_not_space)
  from chunk_loop_first[OF this assms(4) pos] ne assms(4)
  show ?thesis by (simp add: chunk_text_def Let_def)
qed

theorem chunk_text_raises_witness:
  "chunk_overlap \<lparr>chunk_size = 10, chunk_overlap = 2, min_chunk_size = 1\<rparr>
     < chunk_size \<lparr>chunk_size = 10, chunk_overlap = 2, min_chunk_size = 1\<rparr>
   \<and> 0 \<le> chunk_overlap \<lparr>chunk_size = 10, chunk_overlap = 2, min_chunk_size = 1\<rparr>
   \<and> min_chunk_size \<lparr>chunk_size = 10, chunk_overlap = 2, min_chunk_size = 1\<rparr>
       \<le> chunk_size \<lparr>chunk_size = 10, chunk_overlap = 2, min_chunk_size = 1\<rparr>
   \<and> chunk_size \<lparr>chunk_size = 10, chunk_overlap = 2, min_chunk_size = 1\<rparr>
       < len (strip ''aaaa bbbb cccc dddd'')
   \<and> chunk_text \<lparr>chunk_size = 10, chunk_overlap = 2, min_chunk_size = 1\<rparr>
         ''aaaa bbbb cccc dddd'' = Inl TypeError"
proof -
  have s: "strip ''aaaa bbbb cccc dddd'' = ''aaaa bbbb cccc dddd''"
    by (simp add: strip_def isspace_def)
  have h: "chunk_size \<lparr>chunk_size = 10, chunk_overlap = 2, min_chunk_size = 1\<rparr>
             < len (strip ''aaaa bbbb cccc dddd'')"
    by (simp add: s len_def)
  show ?thesis
    using h chunk_text_raises
      [of "\<lparr>chunk_size = 10, chunk_overlap = 2, min_chunk_size = 1\<rparr>" "''aaaa bbbb cccc dddd''"]
    by simp
qed

text \<open>
  The same input, run step by step through the definitions: the window \<open>[0, 10)\<close> is kept
  as the chunk \<open>aaaa bbbb\<close>, the next start is 8, and the comparison of 8 with the list of
  chunks raises. A text that fits in one window is returned whole.
\<close>

lemma chunk_text_long_input_run:
  "chunk_text \<lparr>chunk_size = 10, chunk_overlap = 2, min_chunk_size = 1\<rparr>
     ''aaaa bbbb cccc dddd'' = Inl TypeError"
  by code_simp

lemma chunk_text_short_input_run:
  "chunk_text \<lparr>chunk_size = 10, chunk_overlap = 2, min_chunk_size = 1\<rparr>
     ''aaaa bbbb'' = Inr [''aaaa bbbb'']"
  by code_simp


section \<open>Properties of the vector store\<close>

lemma bind_err_Inr_iff:
  "bind_err m f = Inr y \<longleftrightarrow> (\<exists>x. m = Inr x \<and> f x = Inr y)"
  by (cases m) (auto simp: bind_err_def)















section \<open>Properties of the retriever\<close>

lemma py_slice_0: "py_slice xs 0 k = take (py_bound (len xs) k) xs"
  by (simp add: py_slice_def py_bound_def)

lemma py_bound_le: "py_bound (len xs) k \<le> length xs"
  by (auto simp: py_bound_def len_def)

lemma py_bound_mono: "n \<le> m \<Longrightarrow> py_bound n k \<le> py_bound m k"
  by (auto simp: py_bound_def)



lemma py_slice_0_prefix:
  assumes "prefix xs ys"
  shows "prefix (py_slice xs 0 k) (py_slice ys 0 k)"
proof -
  from assms obtain zs where ys: "ys = xs @ zs" by (auto simp: prefix_def)
  have le: "py_bound (len xs) k \<le> py_bound (len ys) k"
    by (rule py_bound_mono) (simp add: ys len_def)
  have "take (py_bound (len xs) k) xs = take (py_bound (len xs) k) ys"
    using py_bound_le[of xs k] by (simp add: ys)
  also have "prefix \<dots> (take (py_bound (len ys) k) ys)"
    using le by (metis min.absorb1 take_is_prefix take_take)
  finally show ?thesis by (simp add: py_slice_0)
qed


lemma filter_by_threshold_mono:
  assumes "t1 \<le> t2"
  shows "filter_by_threshold t2 results
           = filter (\<lambda>c. t2 \<le> relevance_score c) (filter_by_threshold t1 results)"
proof -
  have "filter (\<lambda>(c, s). t2 \<le> s) results
          = filter (\<lambda>(c, s). t2 \<le> s) (filter (\<lambda>(c, s). t1 \<le> s) results)"
    using assms by (auto intro!: filter_cong)
  then show ?thesis
    by (simp add: filter_by_threshold_def filter_map o_def case_prod_unfold)
qed

lemma sort_reverse_sorted:
  "sorted_wrt (\<lambda>a b. f b \<le> f a) (sort_reverse f xs)"
proof -
  have "sorted (map (\<lambda>x. - f x) (sort_key (\<lambda>x. - f x) xs))" by (rule sorted_sort_key)
  then show ?thesis by (simp add: sort_reverse_def sorted_wrt_map)
qed


lemma sort_reverse_filter:
  "sort_reverse f (filter P xs) = filter P (sort_reverse f xs)"
  by (simp add: sort_reverse_def filter_sort)


lemma descending_filter_prefix:
  "sorted_wrt (\<lambda>a b. f b \<le> f a) xs \<Longrightarrow> prefix (filter (\<lambda>x. (t::real) \<le> f x) xs) xs"
proof (induction xs)
  case Nil
  then show ?case by simp
next
  case (Cons x xs)
  show ?case
  proof (cases "t \<le> f x")
    case True
    with Cons show ?thesis by simp
  next
    case False
    with Cons.prems have "\<forall>y\<in>set xs. \<not> t \<le> f y" by auto
    then have "filter (\<lambda>x. t \<le> f x) xs = []" by (simp add: filter_empty_conv)
    with False show ?thesis by simp
  qed
qed





text \<open>
  C4 (retrieval never raises). For every query, \<open>top_k\<close>, metadata filter and threshold,
  and whatever the embeddings service and the vector store do, \<open>search\<close> returns a list;
  when the embeddings service raises, or the vector store raises on the query embedding,
  the list is empty.
\<close>

theorem search_never_raises:
  "(\<exists>chunks. search self query top_k mf threshold = Inr chunks)
   \<and> (\<forall>e. es_encode_query self query = Inl e \<longrightarrow>
          search self query top_k mf threshold = Inr [])
   \<and> (\<forall>qe e. es_encode_query self query = Inr qe
          \<and> vs_search_similar self qe (effective_top_k self top_k * 2) mf = Inl e \<longrightarrow>
          search self query top_k mf threshold = Inr [])"
  by (auto simp: search_def search_try_def bind_err_def split: sum.splits)


theorem search_never_raises_witness:
  "es_encode_query failing_encoder_retriever ''solar'' = Inl ProviderError
   \<and> search failing_encoder_retriever ''solar'' None None None = Inr []
   \<and> es_encode_query failing_store_retriever ''solar'' = Inr [1]
   \<and> vs_search_similar failing_store_retriever [1]
        (effective_top_k failing_store_retriever None * 2) None = Inl ProviderError
   \<and> search failing_store_retriever ''solar'' None None None = Inr []
   \<and> (\<exists>chunks. search ranked_retriever ''solar'' None None None = Inr chunks)"
proof -
  have a: "es_encode_query failing_encoder_retriever ''solar'' = Inl ProviderError"
    by (simp add: failing_encoder_retriever_def)
  have b: "es_encode_query failing_store_retriever ''solar'' = Inr [1]"
    by (simp add: failing_store_retriever_def)
  have c: "vs_search_similar failing_store_retriever [1]
        (effective_top_k failing_store_retriever None * 2) None = Inl ProviderError"
    by (simp add: failing_store_retriever_def)
  from search_never_raises[of failing_encoder_retriever "''solar''" None None None] a
  have 1: "search failing_encoder_retriever ''solar'' None None None = Inr []" by blast
  from search_never_raises[of failing_store_retriever "''solar''" None None None] b c
  have 2: "search failing_store_retriever ''solar'' None None None = Inr []" by blast
  from search_never_raises[of ranked_retriever "''solar''" None None None]
  have 3: "\<exists>chunks. search ranked_retriever ''solar'' None None None = Inr chunks" by blast
  from a b c 1 2 3 show ?thesis by simp
qed



lemma search_prefix_mono:
  assumes "t1 \<le> t2"
  shows "\<exists>c1 c2. search self query top_k mf (Some t1) = Inr c1
           \<and> search self query top_k mf (Some t2) = Inr c2 \<and> prefix c2 c1"
proof (cases "strip query = []")
  case True
  then show ?thesis by (simp add: search_def)
next
  case nb: False
  let ?k = "effective_top_k self top_k"
  show ?thesis
  proof (cases "es_encode_query self query")
    case (Inl e)
    with nb show ?thesis by (simp add: search_def search_try_def bind_err_def)
  next
    case (Inr qe)
    show ?thesis
    proof (cases "vs_search_similar self qe (?k * 2) mf")
      case (Inl e)
      with nb Inr show ?thesis by (simp add: search_def search_try_def bind_err_def)
    next
      case res: (Inr results)
      let ?S = "\<lambda>t. sort_reverse relevance_score (filter_by_threshold t results)"
      have v: "\<And>t. search self query top_k mf (Some t) = Inr (py_slice (?S t) 0 ?k)"
        using nb Inr res
        by (simp add: search_def search_try_def bind_err_def effective_threshold_def)
      have "?S t2 = filter (\<lambda>c. t2 \<le> relevance_score c) (?S t1)"
        by (simp add: filter_by_threshold_mono[OF assms] sort_reverse_filter)
      also have "prefix \<dots> (?S t1)"
        by (rule descending_filter_prefix) (rule sort_reverse_sorted)
      finally have "prefix (?S t2) (?S t1)" .
      then have "prefix (py_slice (?S t2) 0 ?k) (py_slice (?S t1) 0 ?k)"
        by (rule py_slice_0_prefix)
      with v show ?thesis by blast
    qed
  qed
qed

text \<open>
  C6 (threshold monotonicity). For thresholds \<open>t1 < t2\<close> and the same retriever, query,
  \<open>top_k\<close> and filter, every chunk returned with threshold \<open>t2\<close> is returned with
  threshold \<open>t1\<close>.
\<close>

theorem search_threshold_monotone:
  assumes "t1 < t2"
  shows "\<exists>c1 c2. search self query top_k mf (Some t1) = Inr c1
           \<and> search self query top_k mf (Some t2) = Inr c2 \<and> set c2 \<subseteq> set c1"
proof -
  from assms have "t1 \<le> t2" by simp
  from search_prefix_mono[OF this, of self query top_k mf]
  show ?thesis by (blast dest: set_mono_prefix)
qed

lemma ranked_search_high:
  "search ranked_retriever ''solar'' None None (Some (17 / 20))
     = Inr [demo_chunk ''b'' ''battery storage'' (9 / 10)]"
  by (simp add: search_def search_try_def bind_err_def ranked_retriever_def ranked_results_def
        effective_top_k_def effective_threshold_def filter_by_threshold_def sort_reverse_def
        py_slice_def py_bound_def len_def demo_chunk_def strip_def isspace_def)

lemma ranked_search_low:
  "search ranked_retriever ''solar'' None None (Some (7 / 10))
     = Inr [demo_chunk ''b'' ''battery storage'' (9 / 10), demo_chunk ''a'' ''Solar panels'' (4 / 5)]"
  by (simp add: search_def search_try_def bind_err_def ranked_retriever_def ranked_results_def
        effective_top_k_def effective_threshold_def filter_by_threshold_def sort_reverse_def
        py_slice_def py_bound_def len_def demo_chunk_def strip_def isspace_def)

theorem search_threshold_monotone_witness:
  "(7 / 10 :: real) < 17 / 20
   \<and> search ranked_retriever ''solar'' None None (Some (7 / 10))
        = Inr [demo_chunk ''b'' ''battery storage'' (9 / 10), demo_chunk ''a'' ''Solar panels'' (4 / 5)]
   \<and> search ranked_retriever ''solar'' None None (Some (17 / 20))
        = Inr [demo_chunk ''b'' ''battery storage'' (9 / 10)]
   \<and> set [demo_chunk ''b'' ''battery storage'' (9 / 10)]
        \<subseteq> set [demo_chunk ''b'' ''battery storage'' (9 / 10), demo_chunk ''a'' ''Solar panels'' (4 / 5)]"
proof -
  have h: "(7 / 10 :: real) < 17 / 20" by simp
  from search_threshold_monotone[OF h, of ranked_retriever "''solar''" None None]
  obtain c1 c2 where
    1: "search ranked_retriever ''solar'' None None (Some (7 / 10)) = Inr c1" and
    2: "search ranked_retriever ''solar'' None None (Some (17 / 20)) = Inr c2" and
    3: "set c2 \<subseteq> set c1" by blast
  from 1 have c1: "c1 = [demo_chunk ''b'' ''battery storage'' (9 / 10),
                         demo_chunk ''a'' ''Solar panels'' (4 / 5)]"
    by (simp only: ranked_search_low sum.inject)
  from 2 have c2: "c2 = [demo_chunk ''b'' ''battery storage'' (9 / 10)]"
    by (simp only: ranked_search_high sum.inject)
  from 3 show ?thesis
    unfolding c1 c2 using h ranked_search_low ranked_search_high by blast
qed


section \<open>Properties of the hybrid retriever\<close>












text \<open>The tokens and keyword scores of the ranked chunks for the query \<open>solar battery\<close>.\<close>

lemma lower_solar_panels: "lower ''Solar panels'' = ''solar panels''"
  by code_simp

lemma split_solar_battery: "split (lower ''solar battery'') = [''solar'', ''battery'']"
  by code_simp

lemma keyword_score_solar_panels: "keyword_score (set [''solar'', ''battery'']) ''Solar panels'' = 1 / 2"
  by code_simp

lemma keyword_score_battery_storage: "keyword_score (set [''solar'', ''battery'']) ''battery storage'' = 1 / 2"
  by code_simp

lemma keyword_score_solar_battery: "keyword_score (set [''solar'', ''battery'']) ''solar battery'' = 1"
  by code_simp





section \<open>Properties of the embeddings service\<close>

declare encode_batches.simps [simp del]

lemma fill_result_length: "length (fill_result embs idx r) = length r"
proof -
  have "\<And>r. length (fold (\<lambda>(embedding, orig_index) r. r[orig_index := embedding]) ps r) = length r"
    for ps :: "(vec \<times> nat) list"
    by (induction ps) (auto simp: case_prod_unfold)
  then show ?thesis by (simp add: fill_result_def)
qed

lemma fill_result_untouched:
  "i \<notin> set idx \<Longrightarrow> fill_result embs idx r ! i = r ! i"
proof -
  have "\<And>r. i \<notin> snd ` set ps \<Longrightarrow>
          fold (\<lambda>(embedding, orig_index) r. r[orig_index := embedding]) ps r ! i = r ! i"
    for ps :: "(vec \<times> nat) list"
    by (induction ps) (auto simp: case_prod_unfold)
  moreover assume "i \<notin> set idx"
  then have "i \<notin> snd ` set (zip embs idx)" by (auto dest: set_zip_rightD)
  ultimately show ?thesis by (simp add: fill_result_def)
qed

lemma fill_result_filled:
  "length embs = length idx \<Longrightarrow> distinct idx \<Longrightarrow> \<forall>i\<in>set idx. i < length r \<Longrightarrow>
   map (\<lambda>i. fill_result embs idx r ! i) idx = embs"
proof (induction embs idx arbitrary: r rule: list_induct2)
  case Nil
  then show ?case by simp
next
  case (Cons e embs i idx)
  have step: "fill_result (e # embs) (i # idx) r = fill_result embs idx (r[i := e])"
    by (simp add: fill_result_def)
  from Cons.prems have ni: "i \<notin> set idx" and d: "distinct idx" by simp_all
  have b: "\<forall>j\<in>set idx. j < length (r[i := e])" using Cons.prems by simp
  have hd: "fill_result embs idx (r[i := e]) ! i = e"
    using fill_result_untouched[OF ni] Cons.prems by simp
  from Cons.IH[OF d b] hd show ?case by (simp add: step)
qed

lemma text_indices_set:
  "set (text_indices_of texts) = {i. i < length texts \<and> strip (texts ! i) \<noteq> []}"
  by (auto simp: text_indices_of_def in_set_enumerate_eq image_iff)

lemma text_indices_distinct: "distinct (text_indices_of texts)"
proof -
  have "distinct (map fst (enumerate 0 texts))" by simp
  then show ?thesis
    unfolding text_indices_of_def by (rule distinct_map_filter)
qed

lemma filter_enumerate_snd:
  "map snd (filter (\<lambda>(i, x). P x) (enumerate n xs)) = filter P xs"
  by (induction xs arbitrary: n) auto

lemma text_indices_length:
  "length (text_indices_of texts) = length (filter (\<lambda>text. strip text \<noteq> []) texts)"
proof -
  have "length (filter (\<lambda>(i, text). strip text \<noteq> []) (enumerate 0 texts))
          = length (map snd (filter (\<lambda>(i, text). strip text \<noteq> []) (enumerate 0 texts)))"
    by simp
  also have "\<dots> = length (filter (\<lambda>text. strip text \<noteq> []) texts)"
    by (simp only: filter_enumerate_snd)
  finally show ?thesis by (simp add: text_indices_of_def)
qed

lemma flaky_batch: "encode_batch flaky_service [''a'', ''b''] 1 = [[0], [0]]"
  by code_simp

lemma unit_service_batch: "encode_batch unit_service [''a'', ''  '', ''c''] 2 = [[1], [0], [1]]"
  by code_simp

text \<open>
  C9 (batch encoding isolation). The claim: an item whose encoding fails is replaced by
  the zero vector on its own, and the other items of the batch keep their embeddings. In
  the code one \<open>try\<close> block holds all the model calls: with batches of one text, the
  model succeeds on \<open>a\<close> and raises on \<open>b\<close>, and the result holds the zero vector for
  both, not the embedding \<open>[1]\<close> for \<open>a\<close>.
\<close>

theorem encode_batch_not_isolated:
  "model_encode flaky_service [''a''] = Inr [[1]]
   \<and> model_encode flaky_service [''b''] = Inl ProviderError
   \<and> encode_batch flaky_service [''a'', ''b''] 1 = [[0], [0]]
   \<and> encode_batch flaky_service [''a'', ''b''] 1 ! 0 \<noteq> [1]"
  by (simp add: flaky_batch) (simp add: flaky_service_def)

text \<open>
  C9 as amended: \<open>encode_batch\<close> returns a list as long as its input; a blank text gets
  the zero vector; when the loop of model calls raises (a model call raises, or the batch
  size is 0), every item of the result is the zero vector, whatever the model returned
  for the other batches; when the loop returns one embedding for each non-blank text,
  the non-blank texts get these embeddings in input order.
\<close>

theorem encode_batch_fallback:
  "length (encode_batch self texts batch_size) = length texts
   \<and> (\<forall>i < length texts. strip (texts ! i) = [] \<longrightarrow>
          encode_batch self texts batch_size ! i = zero_vector self)
   \<and> (\<forall>e. encode_all (model_encode self) (filter (\<lambda>text. strip text \<noteq> []) texts) batch_size = Inl e
          \<longrightarrow> encode_batch self texts batch_size = replicate (length texts) (zero_vector self))
   \<and> (\<forall>embeddings.
          encode_all (model_encode self) (filter (\<lambda>text. strip text \<noteq> []) texts) batch_size
            = Inr embeddings
          \<and> length embeddings = length (filter (\<lambda>text. strip text \<noteq> []) texts)
          \<longrightarrow> map (\<lambda>i. encode_batch self texts batch_size ! i) (text_indices_of texts) = embeddings)"
proof (intro conjI allI impI)
  show "length (encode_batch self texts batch_size) = length texts"
    by (simp add: encode_batch_def Let_def fill_result_length split: sum.splits)
next
  fix i assume i: "i < length texts" and blank: "strip (texts ! i) = []"
  then have "i \<notin> set (text_indices_of texts)" by (simp add: text_indices_set)
  then have "\<And>embs. fill_result embs (text_indices_of texts)
                 (replicate (length texts) (zero_vector self)) ! i = zero_vector self"
    using i by (simp add: fill_result_untouched)
  then show "encode_batch self texts batch_size ! i = zero_vector self"
    using i by (auto simp: encode_batch_def Let_def split: sum.splits)
next
  fix e
  assume "encode_all (model_encode self) (filter (\<lambda>text. strip text \<noteq> []) texts) batch_size = Inl e"
  then show "encode_batch self texts batch_size = replicate (length texts) (zero_vector self)"
    by (simp add: encode_batch_def Let_def)
next
  fix embeddings
  let ?ne = "filter (\<lambda>text. strip text \<noteq> []) texts"
  assume a: "encode_all (model_encode self) ?ne batch_size = Inr embeddings
             \<and> length embeddings = length ?ne"
  show "map (\<lambda>i. encode_batch self texts batch_size ! i) (text_indices_of texts) = embeddings"
  proof (cases "?ne = []")
    case True
    with a have "embeddings = []" by simp
    moreover from True have "text_indices_of texts = []"
      using text_indices_length[of texts] by simp
    ultimately show ?thesis by simp
  next
    case False
    then have t: "texts \<noteq> []" by auto
    from a have l: "length embeddings = length (text_indices_of texts)"
      by (simp add: text_indices_length)
    have b: "\<forall>i\<in>set (text_indices_of texts).
               i < length (replicate (length texts) (zero_vector self))"
      by (simp add: text_indices_set)
    from False t a have "encode_batch self texts batch_size
        = fill_result embeddings (text_indices_of texts) (replicate (length texts) (zero_vector self))"
      by (simp add: encode_batch_def Let_def)
    with fill_result_filled[OF l text_indices_distinct b] show ?thesis by simp
  qed
qed

lemma flaky_encode_all:
  "encode_all (model_encode flaky_service) (filter (\<lambda>text. strip text \<noteq> []) [''a'', ''b'']) 1
     = Inl ProviderError"
  by code_simp

lemma unit_encode_all:
  "encode_all (model_encode unit_service)
     (filter (\<lambda>text. strip text \<noteq> []) [''a'', ''  '', ''c'']) 2 = Inr [[1], [1]]"
  by code_simp

lemma unit_indices: "text_indices_of [''a'', ''  '', ''c''] = [0, 2]"
  by code_simp

lemma unit_nonblank: "filter (\<lambda>text. strip text \<noteq> []) [''a'', ''  '', ''c''] = [''a'', ''c'']"
  by code_simp

theorem encode_batch_fallback_witness:
  "length (encode_batch unit_service [''a'', ''  '', ''c''] 2) = length [''a'', ''  '', ''c'']
   \<and> (1 :: nat) < length [''a'', ''  '', ''c'']
   \<and> strip ([''a'', ''  '', ''c''] ! 1) = []
   \<and> encode_batch unit_service [''a'', ''  '', ''c''] 2 ! 1 = zero_vector unit_service
   \<and> encode_all (model_encode flaky_service)
        (filter (\<lambda>text. strip text \<noteq> []) [''a'', ''b'']) 1 = Inl ProviderError
   \<and> encode_batch flaky_service [''a'', ''b''] 1
        = replicate (length [''a'', ''b'']) (zero_vector flaky_service)
   \<and> encode_all (model_encode unit_service)
        (filter (\<lambda>text. strip text \<noteq> []) [''a'', ''  '', ''c'']) 2 = Inr [[1], [1]]
   \<and> length [[1], [1 :: real]] = length (filter (\<lambda>text. strip text \<noteq> []) [''a'', ''  '', ''c''])
   \<and> map (\<lambda>i. encode_batch unit_service [''a'', ''  '', ''c''] 2 ! i)
          (text_indices_of [''a'', ''  '', ''c'']) = [[1], [1]]"
proof -
  have i: "(1 :: nat) < length [''a'', ''  '', ''c'']" by simp
  have b: "strip ([''a'', ''  '', ''c''] ! 1) = []" by (simp add: strip_def isspace_def)
  have l: "length [[1], [1 :: real]]
             = length (filter (\<lambda>text. strip text \<noteq> []) [''a'', ''  '', ''c''])"
    by (simp only: unit_nonblank list.size) 
  note u = encode_batch_fallback[of unit_service "[''a'', ''  '', ''c'']" 2]
  note f = encode_batch_fallback[of flaky_service "[''a'', ''b'']" 1]
  from u have 1: "length (encode_batch unit_service [''a'', ''  '', ''c''] 2)
                    = length [''a'', ''  '', ''c'']" by blast
  from u i b have 2: "encode_batch unit_service [''a'', ''  '', ''c''] 2 ! 1
                        = zero_vector unit_service" by blast
  from f flaky_encode_all have 3: "encode_batch flaky_service [''a'', ''b''] 1
        = replicate (length [''a'', ''b'']) (zero_vector flaky_service)" by blast
  from u unit_encode_all l have 4:
    "map (\<lambda>i. encode_batch unit_service [''a'', ''  '', ''c''] 2 ! i)
          (text_indices_of [''a'', ''  '', ''c'']) = [[1], [1]]" by blast
  from 1 i b 2 flaky_encode_all 3 unit_encode_all l 4 show ?thesis by blast
qed


section \<open>Properties of the semantic cache\<close>

lemma CacheEntry_init_unexpected_keyword:
  "(k, v) \<in> set kwargs \<Longrightarrow> k \<notin> set CacheEntry_fields \<Longrightarrow>
   CacheEntry_init now kwargs = Inl TypeError"
  by (auto simp: CacheEntry_init_def list_all_iff)

lemma put_try_raises:
  "\<exists>e. put_try self db now new_id query resp model ctx_hash q_hash ttl = Inl e"
proof (cases "cache_encode_text self query")
  case (Inl e)
  then show ?thesis by (simp add: put_try_def bind_err_def)
next
  case (Inr query_emb)
  have "CacheEntry_init now
          [(''id'', PStr new_id), (''query_hash'', PStr q_hash),
           (''query_embedding'', PVec query_emb), (''response'', PStr resp),
           (''model_used'', PStr model), (''context_hash'', PStr ctx_hash),
           (''created_at'', PTime now), (''last_accessed'', PTime now),
           (''access_count'', PInt 1), (''ttl_seconds'', PInt ttl)] = Inl TypeError"
    by (rule CacheEntry_init_unexpected_keyword[where k="''id''" and v="PStr new_id"])
       (simp_all add: CacheEntry_fields_def)
  with Inr show ?thesis by (simp add: put_try_def bind_err_def Let_def)
qed

lemma put_unchanged:
  assumes a: "put self db now new_id query resp ctx model ttl = Inr (ok, db')"
  shows "\<not> ok \<and> db' = db"
proof (cases "strip query = [] \<or> strip resp = []")
  case True
  with a show ?thesis by (auto simp: put_def)
next
  case False
  from False a obtain ctx_hash where
    r: "(case put_try self db now new_id query resp model ctx_hash
                (generate_query_hash self query ctx_hash) (ttl_or_default self ttl) of
           Inl e \<Rightarrow> Inr (False, db)
         | Inr db' \<Rightarrow> Inr (True, db')) = (Inr (ok, db') :: error + bool \<times> cache_row list)"
    by (auto simp: put_def Let_def bind_err_Inr_iff)
  from put_try_raises[of self db now new_id query resp model ctx_hash
         "generate_query_hash self query ctx_hash" "ttl_or_default self ttl"]
  obtain e where "put_try self db now new_id query resp model ctx_hash
                (generate_query_hash self query ctx_hash) (ttl_or_default self ttl) = Inl e" ..
  with r show ?thesis by simp
qed

lemma unit_put:
  "put unit_cache [] 0 ''id1'' ''capital of France?'' ''Paris'' None ''m'' (Some 3600)
     = Inr (False, [])"
  by (simp add: put_def put_try_def bind_err_def unit_cache_def strip_def isspace_def
        generate_context_hash_def context_or_empty_def CacheEntry_init_def
        CacheEntry_fields_def Let_def)

lemma unit_get_empty:
  "get unit_cache [] 1 1 1 ''capital of France?'' None ''m'' = Inr (None, [])"
  by (simp add: get_def get_try_def bind_err_def unit_cache_def strip_def isspace_def
        generate_context_hash_def context_or_empty_def candidates_of_def find_best_def
        cleanup_expired_def Let_def)

text \<open>
  C1 (cache round-trip). The claim: \<open>put\<close> of a non-blank query and response returns
  \<open>True\<close>, and a following \<open>get\<close> of the same query returns the response. In the code
  \<open>put\<close> builds its entry with \<open>CacheEntry(id=..., query_hash=..., ...)\<close>, but the
  dataclass \<open>CacheEntry\<close> has the fields \<open>key\<close>, \<open>value\<close>, \<open>created_at\<close> and
  \<open>expires_at\<close> only: the constructor raises \<open>TypeError\<close> inside the \<open>try\<close> block, the
  \<open>INSERT\<close> is never reached, and \<open>put\<close> returns \<open>False\<close>. So whenever \<open>put\<close> returns,
  its flag is \<open>False\<close> and the table is unchanged; on an empty cache the following
  \<open>get\<close> finds nothing.
\<close>

theorem put_never_stores:
  "put self db now new_id query resp ctx model ttl = Inr (ok, db') \<Longrightarrow> \<not> ok \<and> db' = db"
  by (rule put_unchanged)

theorem put_never_stores_witness:
  "put unit_cache [] 0 ''id1'' ''capital of France?'' ''Paris'' None ''m'' (Some 3600)
     = Inr (False, [])
   \<and> \<not> False \<and> ([] :: cache_row list) = []
   \<and> get unit_cache [] 1 1 1 ''capital of France?'' None ''m'' = Inr (None, [])"
  using put_never_stores[OF unit_put] unit_put unit_get_empty by simp







text \<open>
  At the very instant of expiry the row is no longer served, and \<open>put\<close> reads
  \<open>ttl_seconds = 0\<close> as the default time to live.
\<close>

lemma unit_get_at_expiry:
  "get unit_cache [stored_row] 100 100 100 ''capital of France?'' None ''m''
     = Inr (None, [stored_row])"
  by (simp add: get_def get_try_def bind_err_def unit_cache_def strip_def isspace_def
        generate_context_hash_def context_or_empty_def candidates_of_def find_best_def
        stored_row_def Let_def)


lemma zero_ttl_is_default: "ttl_or_default self (Some 0) = default_ttl_seconds self"
  by (simp add: ttl_or_default_def)


end
